theory Spec2Isabelle
  imports Complex_Main "HOL-Library.Char_ord" "HOL-Library.List_Lexorder"
    "HOL-Library.Product_Lexorder" "HOL-Library.Multiset"
begin

section \<open>Sales-lead analysis: cleaning, filtering and aggregation (main.py)\<close>

text \<open>
  The program reads a table of sales leads, cleans it (\<open>load_data\<close>), filters it by the
  sidebar selections and builds grouped summaries (\<open>main\<close>). A DataFrame is a list of rows,
  a nullable cell is an \<open>option\<close> (\<open>None\<close> is NaN or NaT), an exception is a branch of the
  model. Strings are compared as Python compares them, character by character.
\<close>

subsection \<open>Timestamps and calendar arithmetic\<close>

record timestamp =
  year :: int
  month :: int
  day :: int
  hour :: int
  minute :: int

type_synonym date = "int \<times> int \<times> int"

definition is_leap :: "int \<Rightarrow> bool" where
  "is_leap y = (y mod 4 = 0 \<and> (y mod 100 \<noteq> 0 \<or> y mod 400 = 0))"

definition days_in_month :: "int \<Rightarrow> int \<Rightarrow> int" where
  "days_in_month y m =
     (if m = 2 then (if is_leap y then 29 else 28)
      else if m = 4 \<or> m = 6 \<or> m = 9 \<or> m = 11 then 30 else 31)"

definition days_before_year :: "int \<Rightarrow> int" where
  "days_before_year y = (let p = y - 1 in p * 365 + p div 4 - p div 100 + p div 400)"

definition days_before_month :: "int \<Rightarrow> int \<Rightarrow> int" where
  "days_before_month y m = sum_list (map (days_in_month y) [1 .. m - 1])"

text \<open>The proleptic Gregorian ordinal of a day: 1 is 1 January of year 1.\<close>

definition toordinal :: "timestamp \<Rightarrow> int" where
  "toordinal t = days_before_year (year t) + days_before_month (year t) (month t) + day t"

definition total_minutes :: "timestamp \<Rightarrow> int" where
  "total_minutes t = toordinal t * 1440 + hour t * 60 + minute t"

text \<open>\<open>.dt.date\<close>: the calendar day, the time of day dropped.\<close>

definition dt_date :: "timestamp \<Rightarrow> date" where
  "dt_date t = (year t, month t, day t)"

text \<open>\<open>.dt.to_period('M')\<close>: the year and the month, ordered chronologically.\<close>

definition to_period_M :: "timestamp \<Rightarrow> int \<times> int" where
  "to_period_M t = (year t, month t)"

text \<open>\<open>(a - b).dt.days\<close>: the days component of a time difference, rounded down.\<close>

definition timedelta_days :: "timestamp \<Rightarrow> timestamp \<Rightarrow> int" where
  "timedelta_days a b = (total_minutes a - total_minutes b) div 1440"

definition orden_dias :: "string list" where
  "orden_dias = [''Monday'', ''Tuesday'', ''Wednesday'', ''Thursday'', ''Friday'',
                 ''Saturday'', ''Sunday'']"

definition weekday :: "timestamp \<Rightarrow> int" where
  "weekday t = (toordinal t + 6) mod 7"

definition day_name :: "timestamp \<Rightarrow> string" where
  "day_name t = orden_dias ! nat (weekday t)"

subsection \<open>Parsing a timestamp with a fixed format\<close>

text \<open>
  A text is a list of characters; a character stands for a code point below 256. The
  blanks are the characters that \<open>str.isspace\<close> and the pattern \<open>\s\<close> accept.
\<close>

definition isspace :: "char \<Rightarrow> bool" where
  "isspace c =
     (let n = (of_char c :: nat)
      in (9 \<le> n \<and> n \<le> 13) \<or> (28 \<le> n \<and> n \<le> 32) \<or> n = 133 \<or> n = 160)"

text \<open>
  A directive of the format stands for a pattern: alternatives tried from left to right,
  each a sequence of character ranges. These are the patterns of the library:
  \<^verbatim>\<open>
  %d  3[0-1]|[1-2]\d|0[1-9]|[1-9]| [1-9]
  %m  1[0-2]|0[1-9]|[1-9]
  %Y  \d\d\d\d
  %H  2[0-3]|[0-1]\d|\d
  %M  [0-5]\d|\d
  \<close>
\<close>

type_synonym char_class = "char \<times> char"

definition in_class :: "char_class \<Rightarrow> char \<Rightarrow> bool" where
  "in_class cl c = (fst cl \<le> c \<and> c \<le> snd cl)"

definition digit :: char_class where
  "digit = (CHR ''0'', CHR ''9'')"

definition only :: "char \<Rightarrow> char_class" where
  "only c = (c, c)"

definition directive_regex :: "char \<Rightarrow> char_class list list" where
  "directive_regex c =
     (if c = CHR ''d'' then
        [[only CHR ''3'', (CHR ''0'', CHR ''1'')],
         [(CHR ''1'', CHR ''2''), digit],
         [only CHR ''0'', (CHR ''1'', CHR ''9'')],
         [(CHR ''1'', CHR ''9'')],
         [only CHR '' '', (CHR ''1'', CHR ''9'')]]
      else if c = CHR ''m'' then
        [[only CHR ''1'', (CHR ''0'', CHR ''2'')],
         [only CHR ''0'', (CHR ''1'', CHR ''9'')],
         [(CHR ''1'', CHR ''9'')]]
      else if c = CHR ''Y'' then
        [[digit, digit, digit, digit]]
      else if c = CHR ''H'' then
        [[only CHR ''2'', (CHR ''0'', CHR ''3'')],
         [(CHR ''0'', CHR ''1''), digit],
         [digit]]
      else if c = CHR ''M'' then
        [[(CHR ''0'', CHR ''5''), digit],
         [digit]]
      else [])"

text \<open>One alternative against the start of a text: the part it takes and the rest.\<close>

fun match_alt :: "char_class list \<Rightarrow> string \<Rightarrow> (string \<times> string) option" where
  "match_alt [] s = Some ([], s)"
| "match_alt (cl # cls) [] = None"
| "match_alt (cl # cls) (c # s) =
     (if in_class cl c
      then (case match_alt cls s of None \<Rightarrow> None | Some (m, rest) \<Rightarrow> Some (c # m, rest))
      else None)"

text \<open>The number a matched part stands for; the blank of \<open>%d\<close> does not count.\<close>

definition int_of :: "string \<Rightarrow> int" where
  "int_of m = foldl (\<lambda>acc c. acc * 10 + (int (of_char c) - 48)) 0 (filter (in_class digit) m)"

text \<open>All the ways a directive matches the start of a text, in the order they are tried.\<close>

definition directive :: "char \<Rightarrow> string \<Rightarrow> (int \<times> string) list" where
  "directive c s =
     List.map_filter
       (\<lambda>alt. case match_alt alt s of None \<Rightarrow> None | Some (m, rest) \<Rightarrow> Some (int_of m, rest))
       (directive_regex c)"

definition set_field :: "char \<Rightarrow> int \<Rightarrow> timestamp \<Rightarrow> timestamp" where
  "set_field c v t =
     (if c = CHR ''d'' then t\<lparr>day := v\<rparr>
      else if c = CHR ''m'' then t\<lparr>month := v\<rparr>
      else if c = CHR ''Y'' then t\<lparr>year := v\<rparr>
      else if c = CHR ''H'' then t\<lparr>hour := v\<rparr>
      else if c = CHR ''M'' then t\<lparr>minute := v\<rparr>
      else t)"

text \<open>
  A blank of the format stands for \<open>\s+\<close>: one or more blanks of the text, as many as
  there are first.
\<close>

definition after_blanks :: "string \<Rightarrow> string list" where
  "after_blanks s = map (\<lambda>k. drop k s) (rev [1 ..< Suc (length (takeWhile isspace s))])"

text \<open>
  All the ways the format matches the start of a text, in the order the pattern matcher
  finds them: the fields read and the text left over.
\<close>

fun strptime_from :: "string \<Rightarrow> string \<Rightarrow> timestamp \<Rightarrow> (timestamp \<times> string) list" where
  "strptime_from [] s t = [(t, s)]"
| "strptime_from (f # fmt) s t =
     (if f = CHR ''%'' then
        (case fmt of
           [] \<Rightarrow> []
         | c # fmt' \<Rightarrow>
             concat (map (\<lambda>(v, rest). strptime_from fmt' rest (set_field c v t)) (directive c s)))
      else if isspace f then
        concat (map (\<lambda>rest. strptime_from fmt rest t) (after_blanks s))
      else
        (case s of
           [] \<Rightarrow> []
         | x # rest \<Rightarrow> if x = f then strptime_from fmt rest t else []))"

text \<open>
  The range of a timestamp counted in nanoseconds in 64 bits, at the precision of a minute:
  from 21 September 1677, 00:13, to 11 April 2262, 23:47.
\<close>

definition in_bounds :: "timestamp \<Rightarrow> bool" where
  "in_bounds t =
     (total_minutes \<lparr>year = 1677, month = 9, day = 21, hour = 0, minute = 13\<rparr> \<le> total_minutes t
      \<and> total_minutes t \<le> total_minutes \<lparr>year = 2262, month = 4, day = 11, hour = 23, minute = 47\<rparr>)"

definition nat_strings :: "string list" where
  "nat_strings = [''NaT'', ''nat'', ''NAT'', ''nan'', ''NaN'', ''NAN'']"

datatype exn = ValueError | OutOfBoundsDatetime

text \<open>
  One text cell under a format, as \<open>pd.to_datetime(col, format=...)\<close> of pandas 2 reads it.
  An empty text or one of the names of NaT gives NaT (\<open>Inr None\<close>). Otherwise the first
  match of the format counts: there must be one, it must use up the text, the day must
  exist in the calendar and the moment must lie in the range of a timestamp. Every failure
  is an exception (\<open>Inl\<close>).
\<close>

definition strptime :: "string \<Rightarrow> string \<Rightarrow> exn + timestamp option" where
  "strptime fmt s =
     (if s = [] \<or> s \<in> set nat_strings then Inr None
      else
        (case strptime_from fmt s \<lparr>year = 1900, month = 1, day = 1, hour = 0, minute = 0\<rparr> of
           [] \<Rightarrow> Inl ValueError
         | (t, rest) # _ \<Rightarrow>
             if rest \<noteq> [] then Inl ValueError
             else if year t < 1 \<or> days_in_month (year t) (month t) < day t then Inl ValueError
             else if \<not> in_bounds t then Inl OutOfBoundsDatetime
             else Inr (Some t)))"

text \<open>
  A whole column. The parser is a parameter: a function from the format and the text of a
  cell to a timestamp, NaT or an exception. An empty cell becomes NaT in either mode; an
  exception of the parser is raised with \<open>errors='raise'\<close> (the default) and becomes NaT
  with \<open>errors='coerce'\<close>.
\<close>

type_synonym parser = "string \<Rightarrow> string \<Rightarrow> exn + timestamp option"

datatype errors = Raise | Coerce

definition to_datetime_cell :: "parser \<Rightarrow> string \<Rightarrow> errors \<Rightarrow> string option \<Rightarrow> exn + timestamp option" where
  "to_datetime_cell parse fmt errs cell =
     (case cell of
        None \<Rightarrow> Inr None
      | Some s \<Rightarrow>
          (case parse fmt s of
             Inr t \<Rightarrow> Inr t
           | Inl e \<Rightarrow> (case errs of Raise \<Rightarrow> Inl e | Coerce \<Rightarrow> Inr None)))"

fun to_datetime ::
  "parser \<Rightarrow> string option list \<Rightarrow> string \<Rightarrow> errors \<Rightarrow> exn + timestamp option list" where
  "to_datetime parse [] fmt errs = Inr []"
| "to_datetime parse (cell # col) fmt errs =
     (case to_datetime_cell parse fmt errs cell of
        Inl e \<Rightarrow> Inl e
      | Inr t \<Rightarrow>
          (case to_datetime parse col fmt errs of
             Inl e \<Rightarrow> Inl e
           | Inr ts \<Rightarrow> Inr (t # ts)))"

subsection \<open>The cleaner: load_data\<close>

text \<open>The table as \<open>pd.read_csv\<close> hands it over: every cell is a text or empty.\<close>

record raw_row =
  csv_Toma_de_contacto :: "string option"
  csv_Fecha_de_Creacion :: "string option"
  csv_Fecha_de_Conversion :: "string option"
  csv_Producto :: "string option"

text \<open>A row of the cleaned table, with the columns \<open>load_data\<close> adds.\<close>

record row =
  Toma_de_contacto :: "string option"
  Fecha_de_Creacion :: "timestamp option"
  Fecha_de_Conversion :: "timestamp option"
  Producto :: "string option"
  Anio_Creacion :: "int option"
  Mes_Creacion :: "int option"
  Mes_Anio_Creacion :: "(int \<times> int) option"
  Convertido :: bool
  Dias_Hasta_Conversion :: "int option"

definition str_strip :: "string \<Rightarrow> string" where
  "str_strip s = rev (dropWhile isspace (rev (dropWhile isspace s)))"

definition year_in_range :: "timestamp option \<Rightarrow> bool" where
  "year_in_range c = (case c of None \<Rightarrow> False | Some t \<Rightarrow> 2018 \<le> year t \<and> year t \<le> 2021)"

definition add_columns :: "raw_row \<times> timestamp option \<times> timestamp option \<Rightarrow> row" where
  "add_columns x =
     (case x of (r, creacion, conversion) \<Rightarrow>
        \<lparr>Toma_de_contacto = csv_Toma_de_contacto r,
         Fecha_de_Creacion = creacion,
         Fecha_de_Conversion = conversion,
         Producto = csv_Producto r,
         Anio_Creacion = map_option year creacion,
         Mes_Creacion = map_option month creacion,
         Mes_Anio_Creacion = map_option to_period_M creacion,
         Convertido = (csv_Producto r \<noteq> None),
         Dias_Hasta_Conversion =
           (case conversion of
              None \<Rightarrow> None
            | Some v \<Rightarrow>
                (case creacion of
                   None \<Rightarrow> None
                 | Some c \<Rightarrow> Some \<bar>timedelta_days v c\<bar>))\<rparr>)"

text \<open>
  The days to conversion in the words of the specification: the absolute value of
  (conversion time - creation time), in whole days.
\<close>

definition spec_days_to_conversion :: "timestamp \<Rightarrow> timestamp \<Rightarrow> int" where
  "spec_days_to_conversion conversion creacion =
     \<bar>total_minutes conversion - total_minutes creacion\<bar> div 1440"

text \<open>
  The cleaner calls two library functions on the cells: \<open>str.strip\<close> (line 30) and the
  parser behind \<open>pd.to_datetime\<close> (lines 34 and 35). \<open>load_data_with\<close> is the cleaner
  with these two as parameters. It returns \<open>None\<close> when an exception reaches one of its
  handlers: the source reports the error and returns \<open>None\<close>, and \<open>main\<close> then returns
  at once.
\<close>

definition load_data_with :: "(string \<Rightarrow> string) \<Rightarrow> parser \<Rightarrow> raw_row list \<Rightarrow> row list option" where
  "load_data_with strip parse csv =
     (let df = filter (\<lambda>r. csv_Toma_de_contacto r \<noteq> None) csv;
          df = filter (\<lambda>r. map_option strip (csv_Toma_de_contacto r) \<noteq> Some []) df
      in case to_datetime parse (map csv_Fecha_de_Creacion df) ''%d/%m/%Y %H:%M'' Raise of
           Inl e \<Rightarrow> None
         | Inr creacion \<Rightarrow>
             (case to_datetime parse (map csv_Fecha_de_Conversion df) ''%d/%m/%Y'' Coerce of
                Inl e \<Rightarrow> None
              | Inr conversion \<Rightarrow>
                  Some (map add_columns
                         (filter (\<lambda>(r, c, v). year_in_range c)
                            (zip df (zip creacion conversion))))))"

text \<open>The cleaner with the library functions as modelled above.\<close>

definition load_data :: "raw_row list \<Rightarrow> row list option" where
  "load_data = load_data_with str_strip strptime"

subsection \<open>The filter engine\<close>

text \<open>\<open>Series.isin\<close>: an empty cell is in no selection.\<close>

definition isin :: "string option \<Rightarrow> string list \<Rightarrow> bool" where
  "isin cell values = (case cell of None \<Rightarrow> False | Some s \<Rightarrow> s \<in> set values)"

definition in_date_range :: "date \<Rightarrow> date \<Rightarrow> row \<Rightarrow> bool" where
  "in_date_range fecha_inicio fecha_fin r =
     (case Fecha_de_Creacion r of
        None \<Rightarrow> False
      | Some t \<Rightarrow> fecha_inicio \<le> dt_date t \<and> dt_date t \<le> fecha_fin)"

definition apply_filters :: "row list \<Rightarrow> date \<Rightarrow> date \<Rightarrow> string list \<Rightarrow> string list \<Rightarrow> row list" where
  "apply_filters df fecha_inicio fecha_fin toma_seleccionada producto_seleccionado =
     (let df_filtered = filter (in_date_range fecha_inicio fecha_fin) df;
          df_filtered =
            (if toma_seleccionada \<noteq> []
             then filter (\<lambda>r. isin (Toma_de_contacto r) toma_seleccionada) df_filtered
             else df_filtered);
          df_filtered =
            (if producto_seleccionado \<noteq> []
             then filter (\<lambda>r. isin (Toma_de_contacto r) producto_seleccionado) df_filtered
             else df_filtered)
      in df_filtered)"

subsection \<open>Headline metrics\<close>

text \<open>
  A floating-point result: not-a-number, infinity, or a number. Numbers are kept exact
  (rationals); rounding is not modelled.
\<close>

datatype pyfloat = NaN | PosInf | Num rat

definition total_registros :: "row list \<Rightarrow> nat" where
  "total_registros df_filtered = length df_filtered"

definition total_ventas :: "row list \<Rightarrow> nat" where
  "total_ventas df_filtered = length (filter Convertido df_filtered)"

definition tasa_conversion :: "row list \<Rightarrow> pyfloat" where
  "tasa_conversion df_filtered =
     (if total_registros df_filtered > 0
      then Num (of_nat (total_ventas df_filtered) / of_nat (total_registros df_filtered) * 100)
      else Num 0)"

subsection \<open>Grouped summaries\<close>

text \<open>
  Division of one integer column by another, then times 100: pandas gives NaN for 0/0 and
  infinity for a positive count over 0, and raises nothing.
\<close>

definition series_div :: "nat \<Rightarrow> nat \<Rightarrow> pyfloat" where
  "series_div a b =
     (if b = 0 then (if a = 0 then NaN else PosInf) else Num (of_nat a / of_nat b))"

definition series_mul :: "pyfloat \<Rightarrow> rat \<Rightarrow> pyfloat" where
  "series_mul x k = (case x of NaN \<Rightarrow> NaN | PosInf \<Rightarrow> PosInf | Num q \<Rightarrow> Num (q * k))"

record 'k agg_row =
  grupo :: 'k
  registros :: nat
  ventas :: nat
  Tasa_Conversion :: pyfloat

text \<open>
  \<open>groupby(key)\<close>: one group per value of the key that occurs, rows with an empty key
  left out, groups in ascending order of the key.
\<close>

definition group_keys :: "(row \<Rightarrow> 'k::linorder option) \<Rightarrow> row list \<Rightarrow> 'k list" where
  "group_keys key df = sort (remdups (List.map_filter key df))"

definition get_group :: "(row \<Rightarrow> 'k option) \<Rightarrow> row list \<Rightarrow> 'k \<Rightarrow> row list" where
  "get_group key df k = filter (\<lambda>r. key r = Some k) df"

text \<open>
  The aggregation \<open>{'Toma de contacto': 'count', 'Convertido': 'sum'}\<close> of one group, and the
  rate column computed from the two.
\<close>

definition agg_group :: "'k \<Rightarrow> row list \<Rightarrow> 'k agg_row" where
  "agg_group k g =
     (let n = length (filter (\<lambda>r. Toma_de_contacto r \<noteq> None) g);
          v = length (filter Convertido g)
      in \<lparr>grupo = k, registros = n, ventas = v,
          Tasa_Conversion = series_mul (series_div v n) 100\<rparr>)"

definition groupby_agg :: "(row \<Rightarrow> 'k::linorder option) \<Rightarrow> row list \<Rightarrow> 'k agg_row list" where
  "groupby_agg key df = map (\<lambda>k. agg_group k (get_group key df k)) (group_keys key df)"

definition monthly_data :: "row list \<Rightarrow> (int \<times> int) agg_row list" where
  "monthly_data df_filtered = groupby_agg Mes_Anio_Creacion df_filtered"

definition yearly_data :: "row list \<Rightarrow> int agg_row list" where
  "yearly_data df_filtered = groupby_agg Anio_Creacion df_filtered"

text \<open>The summary by contact channel, before it is sorted.\<close>

definition contacto_data :: "row list \<Rightarrow> string agg_row list" where
  "contacto_data df_filtered = groupby_agg Toma_de_contacto df_filtered"

text \<open>The summary by product, before it is sorted: converted rows only, counting products.\<close>

definition producto_data :: "row list \<Rightarrow> (string \<times> nat) list" where
  "producto_data df_filtered =
     (let conv = filter Convertido df_filtered
      in map (\<lambda>k. (k, length (filter (\<lambda>r. Producto r \<noteq> None) (get_group Producto conv k))))
           (group_keys Producto conv))"

definition Fecha_Solo :: "row \<Rightarrow> date option" where
  "Fecha_Solo r = map_option dt_date (Fecha_de_Creacion r)"

definition daily_data :: "row list \<Rightarrow> date agg_row list" where
  "daily_data df_filtered = groupby_agg Fecha_Solo df_filtered"

text \<open>
  \<open>pd.Categorical(values, categories=...)\<close>: a value outside the categories becomes empty.
  Grouping by a categorical column gives one group per category, in the order of the
  categories, also for a category that no row has (\<open>observed=False\<close>, the default of the
  pandas versions the program was written for).
\<close>

definition Categorical :: "string option \<Rightarrow> string list \<Rightarrow> string option" where
  "Categorical v categories =
     (case v of None \<Rightarrow> None | Some s \<Rightarrow> if s \<in> set categories then Some s else None)"

definition Dia_Semana :: "row \<Rightarrow> string option" where
  "Dia_Semana r = Categorical (map_option day_name (Fecha_de_Creacion r)) orden_dias"

definition groupby_categorical ::
  "(row \<Rightarrow> string option) \<Rightarrow> string list \<Rightarrow> row list \<Rightarrow> string agg_row list" where
  "groupby_categorical key categories df =
     map (\<lambda>k. agg_group k (get_group key df k)) categories"

definition dia_semana_data :: "row list \<Rightarrow> string agg_row list" where
  "dia_semana_data df_filtered = groupby_categorical Dia_Semana orden_dias df_filtered"

text \<open>
  What \<open>sort_values(col, ascending=False)\<close> promises of its result: the same rows, in
  descending order of the column. The order of rows with equal values is left to the
  sorting routine of the library and is not described here.
\<close>

definition sort_values_desc :: "('a \<Rightarrow> nat) \<Rightarrow> 'a list \<Rightarrow> 'a list \<Rightarrow> bool" where
  "sort_values_desc col tbl out =
     (mset out = mset tbl \<and> sorted_wrt (\<lambda>a b. col b \<le> col a) out)"

subsection \<open>Example tables\<close>

text \<open>A small source table and the table the cleaner makes of it.\<close>

definition ex_csv :: "raw_row list" where
  "ex_csv =
     [\<lparr>csv_Toma_de_contacto = Some ''Web'', csv_Fecha_de_Creacion = Some ''01/01/2019 10:00'',
       csv_Fecha_de_Conversion = Some ''01/01/2019'', csv_Producto = Some ''A''\<rparr>,
      \<lparr>csv_Toma_de_contacto = Some ''Web'', csv_Fecha_de_Creacion = Some ''15/01/2019 09:00'',
       csv_Fecha_de_Conversion = Some ''20/01/2019'', csv_Producto = None\<rparr>,
      \<lparr>csv_Toma_de_contacto = Some ''Tel'', csv_Fecha_de_Creacion = Some ''15/02/2020 09:00'',
       csv_Fecha_de_Conversion = None, csv_Producto = Some ''B''\<rparr>,
      \<lparr>csv_Toma_de_contacto = Some ''  '', csv_Fecha_de_Creacion = Some ''16/02/2020 09:00'',
       csv_Fecha_de_Conversion = None, csv_Producto = Some ''B''\<rparr>,
      \<lparr>csv_Toma_de_contacto = None, csv_Fecha_de_Creacion = Some ''17/02/2020 09:00'',
       csv_Fecha_de_Conversion = None, csv_Producto = None\<rparr>,
      \<lparr>csv_Toma_de_contacto = Some ''Tel'', csv_Fecha_de_Creacion = Some ''03/03/2017 08:00'',
       csv_Fecha_de_Conversion = None, csv_Producto = Some ''A''\<rparr>,
      \<lparr>csv_Toma_de_contacto = Some ''Mail'', csv_Fecha_de_Creacion = None,
       csv_Fecha_de_Conversion = None, csv_Producto = None\<rparr>]"

definition ex_row1 :: row where
  "ex_row1 =
     \<lparr>Toma_de_contacto = Some ''Web'',
      Fecha_de_Creacion = Some \<lparr>year = 2019, month = 1, day = 1, hour = 10, minute = 0\<rparr>,
      Fecha_de_Conversion = Some \<lparr>year = 2019, month = 1, day = 1, hour = 0, minute = 0\<rparr>,
      Producto = Some ''A'', Anio_Creacion = Some 2019, Mes_Creacion = Some 1,
      Mes_Anio_Creacion = Some (2019, 1), Convertido = True, Dias_Hasta_Conversion = Some 1\<rparr>"

definition ex_row2 :: row where
  "ex_row2 =
     \<lparr>Toma_de_contacto = Some ''Web'',
      Fecha_de_Creacion = Some \<lparr>year = 2019, month = 1, day = 15, hour = 9, minute = 0\<rparr>,
      Fecha_de_Conversion = Some \<lparr>year = 2019, month = 1, day = 20, hour = 0, minute = 0\<rparr>,
      Producto = None, Anio_Creacion = Some 2019, Mes_Creacion = Some 1,
      Mes_Anio_Creacion = Some (2019, 1), Convertido = False, Dias_Hasta_Conversion = Some 4\<rparr>"

definition ex_row3 :: row where
  "ex_row3 =
     \<lparr>Toma_de_contacto = Some ''Tel'',
      Fecha_de_Creacion = Some \<lparr>year = 2020, month = 2, day = 15, hour = 9, minute = 0\<rparr>,
      Fecha_de_Conversion = None,
      Producto = Some ''B'', Anio_Creacion = Some 2020, Mes_Creacion = Some 2,
      Mes_Anio_Creacion = Some (2020, 2), Convertido = True, Dias_Hasta_Conversion = None\<rparr>"

definition ex_df :: "row list" where
  "ex_df = [ex_row1, ex_row2, ex_row3]"


text \<open>
  Two leads created on 1 January 2019 at 10:00, one converted on the same day, one on the
  next, and the second row of the table the cleaner makes of them (the first is
  \<open>ex_row1\<close>).
\<close>

definition c5_csv :: "raw_row list" where
  "c5_csv =
     [\<lparr>csv_Toma_de_contacto = Some ''Web'', csv_Fecha_de_Creacion = Some ''01/01/2019 10:00'',
       csv_Fecha_de_Conversion = Some ''01/01/2019'', csv_Producto = Some ''A''\<rparr>,
      \<lparr>csv_Toma_de_contacto = Some ''Web'', csv_Fecha_de_Creacion = Some ''01/01/2019 10:00'',
       csv_Fecha_de_Conversion = Some ''02/01/2019'', csv_Producto = Some ''A''\<rparr>]"

definition c5_row2 :: row where
  "c5_row2 =
     \<lparr>Toma_de_contacto = Some ''Web'',
      Fecha_de_Creacion = Some \<lparr>year = 2019, month = 1, day = 1, hour = 10, minute = 0\<rparr>,
      Fecha_de_Conversion = Some \<lparr>year = 2019, month = 1, day = 2, hour = 0, minute = 0\<rparr>,
      Producto = Some ''A'', Anio_Creacion = Some 2019, Mes_Creacion = Some 1,
      Mes_Anio_Creacion = Some (2019, 1), Convertido = True, Dias_Hasta_Conversion = Some 0\<rparr>"

text \<open>Rows of the summaries of the example table.\<close>

definition ex_tel :: "string agg_row" where
  "ex_tel = \<lparr>grupo = ''Tel'', registros = 1, ventas = 1, Tasa_Conversion = Num 100\<rparr>"

definition ex_web :: "string agg_row" where
  "ex_web = \<lparr>grupo = ''Web'', registros = 2, ventas = 1, Tasa_Conversion = Num 50\<rparr>"

definition ex_monday :: "string agg_row" where
  "ex_monday = \<lparr>grupo = ''Monday'', registros = 0, ventas = 0, Tasa_Conversion = NaN\<rparr>"

section \<open>Properties\<close>

subsection \<open>Reading a column of dates\<close>

lemma to_datetime_Inr_iff:
  "to_datetime parse col fmt errs = Inr ts \<longleftrightarrow>
     map (to_datetime_cell parse fmt errs) col = map Inr ts"
proof (induction col arbitrary: ts)
  case Nil
  show ?case by auto
next
  case (Cons cell col)
  show ?case
  proof (cases ts)
    case Nil
    then show ?thesis by (simp split: sum.splits)
  next
    case (Cons t us)
    have "to_datetime parse col fmt errs = Inr us \<longleftrightarrow>
        map (to_datetime_cell parse fmt errs) col = map Inr us"
      by (rule Cons.IH)
    then show ?thesis using Cons by (auto split: sum.splits)
  qed
qed





lemma to_datetime_nth:
  assumes "to_datetime parse (map f d) fmt errs = Inr ts" and "i < length d"
  shows "i < length ts \<and> to_datetime_cell parse fmt errs (f (d ! i)) = Inr (ts ! i)"
proof -
  from assms(1) have m: "map (to_datetime_cell parse fmt errs) (map f d) = map Inr ts"
    by (simp only: to_datetime_Inr_iff)
  have l: "length d = length ts"
    using m by (metis length_map)
  have "map (to_datetime_cell parse fmt errs) (map f d) ! i = map Inr ts ! i"
    using m by (rule arg_cong [where f = "\<lambda>xs. xs ! i"])
  with assms(2) l show ?thesis by simp
qed

subsection \<open>What the cleaner returns\<close>


lemma load_data_with_Some:
  assumes "load_data_with strip parse csv = Some df"
  shows "\<exists>cs vs. to_datetime parse (map csv_Fecha_de_Creacion
            (filter (\<lambda>r. map_option strip (csv_Toma_de_contacto r) \<noteq> Some [])
              (filter (\<lambda>r. csv_Toma_de_contacto r \<noteq> None) csv))) ''%d/%m/%Y %H:%M'' Raise = Inr cs
         \<and> to_datetime parse (map csv_Fecha_de_Conversion
            (filter (\<lambda>r. map_option strip (csv_Toma_de_contacto r) \<noteq> Some [])
              (filter (\<lambda>r. csv_Toma_de_contacto r \<noteq> None) csv))) ''%d/%m/%Y'' Coerce = Inr vs
         \<and> df = map add_columns (filter (\<lambda>(r, c, v). year_in_range c)
            (zip (filter (\<lambda>r. map_option strip (csv_Toma_de_contacto r) \<noteq> Some [])
              (filter (\<lambda>r. csv_Toma_de_contacto r \<noteq> None) csv)) (zip cs vs)))"
  using assms unfolding load_data_with_def Let_def
  by (simp split: sum.splits)

lemma load_data_with_rows:
  assumes "load_data_with strip parse csv = Some df" and "x \<in> set df"
  shows "\<exists>r c v. x = add_columns (r, c, v) \<and> r \<in> set csv \<and> year_in_range c
           \<and> csv_Toma_de_contacto r \<noteq> None
           \<and> map_option strip (csv_Toma_de_contacto r) \<noteq> Some []
           \<and> to_datetime_cell parse ''%d/%m/%Y %H:%M'' Raise (csv_Fecha_de_Creacion r) = Inr c
           \<and> to_datetime_cell parse ''%d/%m/%Y'' Coerce (csv_Fecha_de_Conversion r) = Inr v"
proof -
  define d where "d = filter (\<lambda>r. map_option strip (csv_Toma_de_contacto r) \<noteq> Some [])
    (filter (\<lambda>r. csv_Toma_de_contacto r \<noteq> None) csv)"
  from load_data_with_Some [OF assms(1)] obtain cs vs where
    cs: "to_datetime parse (map csv_Fecha_de_Creacion d) ''%d/%m/%Y %H:%M'' Raise = Inr cs" and
    vs: "to_datetime parse (map csv_Fecha_de_Conversion d) ''%d/%m/%Y'' Coerce = Inr vs" and
    df: "df = map add_columns (filter (\<lambda>(r, c, v). year_in_range c) (zip d (zip cs vs)))"
    unfolding d_def [symmetric] by blast
  from assms(2) df obtain r c v where x: "x = add_columns (r, c, v)"
    and z: "(r, c, v) \<in> set (zip d (zip cs vs))" and y: "year_in_range c"
    by auto
  from z obtain i where i: "i < length d"
    and r: "r = d ! i" and c: "c = cs ! i" and v: "v = vs ! i"
    by (auto simp: set_zip)
  have a: "to_datetime_cell parse ''%d/%m/%Y %H:%M'' Raise (csv_Fecha_de_Creacion r) = Inr c"
    using to_datetime_nth [OF cs i] r c by simp
  have b: "to_datetime_cell parse ''%d/%m/%Y'' Coerce (csv_Fecha_de_Conversion r) = Inr v"
    using to_datetime_nth [OF vs i] r v by simp
  have "r \<in> set d" using r i by simp
  then have e: "r \<in> set csv \<and> csv_Toma_de_contacto r \<noteq> None
      \<and> map_option strip (csv_Toma_de_contacto r) \<noteq> Some []"
    unfolding d_def by simp
  show ?thesis
    apply (rule exI [of _ r], rule exI [of _ c], rule exI [of _ v])
    using x y a b e by simp
qed

lemma load_data_rows:
  assumes "load_data csv = Some df" and "x \<in> set df"
  shows "\<exists>r c v. x = add_columns (r, c, v) \<and> r \<in> set csv \<and> year_in_range c
           \<and> csv_Toma_de_contacto r \<noteq> None"
proof -
  from assms(1) have "load_data_with str_strip strptime csv = Some df"
    by (simp only: load_data_def)
  from load_data_with_rows [OF this assms(2)] show ?thesis by blast
qed

lemma load_data_ex_csv: "load_data ex_csv = Some ex_df"
  by code_simp

lemma add_columns_sel:
  "Toma_de_contacto (add_columns (r, c, v)) = csv_Toma_de_contacto r"
  "Fecha_de_Creacion (add_columns (r, c, v)) = c"
  "Fecha_de_Conversion (add_columns (r, c, v)) = v"
  "Producto (add_columns (r, c, v)) = csv_Producto r"
  "Anio_Creacion (add_columns (r, c, v)) = map_option year c"
  "Convertido (add_columns (r, c, v)) = (csv_Producto r \<noteq> None)"
  "Dias_Hasta_Conversion (add_columns (r, c, v)) =
     (case v of None \<Rightarrow> None
      | Some a \<Rightarrow> (case c of None \<Rightarrow> None | Some b \<Rightarrow> Some \<bar>timedelta_days a b\<bar>))"
  by (simp_all add: add_columns_def)

lemma load_data_Toma:
  assumes "load_data csv = Some df" and "r \<in> set df"
  shows "Toma_de_contacto r \<noteq> None"
proof -
  from load_data_rows [OF assms] obtain x c v where "r = add_columns (x, c, v)"
    and "csv_Toma_de_contacto x \<noteq> None"
    by blast
  then show ?thesis by (simp add: add_columns_sel)
qed

lemma load_data_Convertido:
  assumes "load_data csv = Some df" and "r \<in> set df"
  shows "Convertido r = (Producto r \<noteq> None)"
proof -
  from load_data_rows [OF assms] obtain x c v where "r = add_columns (x, c, v)"
    by blast
  then show ?thesis by (simp only: add_columns_sel)
qed

subsection \<open>The cleaned table\<close>

text \<open>
  Claim C4. In every row of the cleaned table the flag \<open>Convertido\<close> is true exactly when
  the product cell is present. The conversion date has no part in it: the example row is
  converted although its conversion date is empty.
\<close>

theorem converted_iff_product_present:
  assumes "load_data csv = Some df" and "r \<in> set df"
  shows "Convertido r = (Producto r \<noteq> None)"
  using assms by (rule load_data_Convertido)

theorem converted_iff_product_present_witness:
  "load_data ex_csv = Some ex_df \<and> ex_row3 \<in> set ex_df
   \<and> Fecha_de_Conversion ex_row3 = None \<and> Producto ex_row3 = Some ''B''
   \<and> Convertido ex_row3 = (Producto ex_row3 \<noteq> None)"
proof -
  have a: "load_data ex_csv = Some ex_df" by (rule load_data_ex_csv)
  have b: "ex_row3 \<in> set ex_df" by (simp add: ex_df_def)
  have c: "Fecha_de_Conversion ex_row3 = None \<and> Producto ex_row3 = Some ''B''"
    by (simp add: ex_row3_def)
  from converted_iff_product_present [OF a b] a b c show ?thesis by simp
qed

lemma Dias_Hasta_Conversion_rows:
  assumes "load_data csv = Some df" and "r \<in> set df"
  shows "case Fecha_de_Conversion r of
           None \<Rightarrow> Dias_Hasta_Conversion r = None
         | Some v \<Rightarrow> \<exists>c d. Fecha_de_Creacion r = Some c \<and> Dias_Hasta_Conversion r = Some d
                       \<and> d = \<bar>timedelta_days v c\<bar> \<and> 0 \<le> d"
proof -
  from load_data_rows [OF assms] obtain x c v where r: "r = add_columns (x, c, v)"
    and y: "year_in_range c"
    by blast
  from y obtain t where "c = Some t" by (cases c) (simp_all add: year_in_range_def)
  with r show ?thesis by (cases v) (simp_all add: add_columns_sel)
qed

text \<open>
  Claim C5. The claim: with a conversion time, the days to conversion are the absolute
  value of the time between creation and conversion, in whole days. The code does not
  compute that: line 48 takes the whole days of the difference first, rounded down, and the
  absolute value after, so a negative difference that is not a whole number of days counts
  one day too many. A lead created at 10:00 and converted on the same day (a conversion
  date has no time of day) gets 1 day, where the absolute difference, 10 hours, is 0 whole
  days; converted on the next day it gets 0 days.
\<close>

theorem same_day_conversion_counts_one_day:
  "load_data c5_csv = Some [ex_row1, c5_row2]
   \<and> Dias_Hasta_Conversion ex_row1 = Some 1
   \<and> spec_days_to_conversion
         \<lparr>year = 2019, month = 1, day = 1, hour = 0, minute = 0\<rparr>
         \<lparr>year = 2019, month = 1, day = 1, hour = 10, minute = 0\<rparr> = 0
   \<and> Dias_Hasta_Conversion c5_row2 = Some 0
   \<and> spec_days_to_conversion
         \<lparr>year = 2019, month = 1, day = 2, hour = 0, minute = 0\<rparr>
         \<lparr>year = 2019, month = 1, day = 1, hour = 10, minute = 0\<rparr> = 0"
  by code_simp

text \<open>
  Claim C6. Every row of the cleaned table has a creation time, and its year lies between
  2018 and 2021, both included; a row outside this range is not in the table.
\<close>

theorem creation_year_in_range:
  assumes "load_data csv = Some df" and "r \<in> set df"
  shows "\<exists>t. Fecha_de_Creacion r = Some t \<and> 2018 \<le> year t \<and> year t \<le> 2021
           \<and> Anio_Creacion r = Some (year t)"
proof -
  from load_data_rows [OF assms] obtain x c v where r: "r = add_columns (x, c, v)"
    and y: "year_in_range c"
    by blast
  from y obtain t where "c = Some t" "2018 \<le> year t" "year t \<le> 2021"
    by (cases c) (simp_all add: year_in_range_def)
  with r show ?thesis by (simp add: add_columns_sel)
qed

theorem creation_year_in_range_witness:
  "load_data ex_csv = Some ex_df \<and> ex_row1 \<in> set ex_df
   \<and> (\<exists>t. Fecha_de_Creacion ex_row1 = Some t \<and> 2018 \<le> year t \<and> year t \<le> 2021
         \<and> Anio_Creacion ex_row1 = Some (year t))
   \<and> length ex_csv = 7 \<and> length ex_df = 3"
proof -
  have a: "load_data ex_csv = Some ex_df" by (rule load_data_ex_csv)
  have b: "ex_row1 \<in> set ex_df" by (simp add: ex_df_def)
  have c: "length ex_csv = 7 \<and> length ex_df = 3" by (simp add: ex_csv_def ex_df_def)
  from creation_year_in_range [OF a b] a b c show ?thesis by simp
qed




subsection \<open>The filtered view\<close>

text \<open>
  Claim C1. When the product selection is not empty, the product filter reads the
  contact-channel column: the filtered view holds exactly the rows in the date range whose
  contact channel is in the channel selection (if there is one) and whose contact channel
  is in the product selection. The product column is never read: selecting product \<open>A\<close>
  on the example table leaves no row, although its first row has product \<open>A\<close>.
\<close>

theorem product_filter_reads_channel:
  assumes "producto_seleccionado \<noteq> []"
  shows "apply_filters df fecha_inicio fecha_fin toma_seleccionada producto_seleccionado =
         filter (\<lambda>r. in_date_range fecha_inicio fecha_fin r
                   \<and> (toma_seleccionada = [] \<or> isin (Toma_de_contacto r) toma_seleccionada)
                   \<and> isin (Toma_de_contacto r) producto_seleccionado) df"
  using assms by (auto simp: apply_filters_def Let_def intro: filter_cong)

theorem product_filter_reads_channel_witness:
  "[''A''] \<noteq> [] \<and> Producto ex_row1 = Some ''A''
   \<and> apply_filters ex_df (2018, 1, 1) (2021, 12, 31) [] [''A''] = []
   \<and> apply_filters ex_df (2018, 1, 1) (2021, 12, 31) [] [''Tel''] = [ex_row3]"
proof -
  have n: "[''A''] \<noteq> []" and m: "[''Tel''] \<noteq> []" by simp_all
  have p: "Producto ex_row1 = Some ''A''" by (simp add: ex_row1_def)
  have a: "filter (\<lambda>r. in_date_range (2018, 1, 1) (2021, 12, 31) r
                   \<and> (([]::string list) = [] \<or> isin (Toma_de_contacto r) [])
                   \<and> isin (Toma_de_contacto r) [''A'']) ex_df = []"
    by code_simp
  have b: "filter (\<lambda>r. in_date_range (2018, 1, 1) (2021, 12, 31) r
                   \<and> (([]::string list) = [] \<or> isin (Toma_de_contacto r) [])
                   \<and> isin (Toma_de_contacto r) [''Tel'']) ex_df = [ex_row3]"
    by code_simp
  from product_filter_reads_channel [OF n, of ex_df "(2018, 1, 1)" "(2021, 12, 31)" "[]"]
       product_filter_reads_channel [OF m, of ex_df "(2018, 1, 1)" "(2021, 12, 31)" "[]"]
       a b p
  show ?thesis by simp
qed

lemma set_apply_filters: "set (apply_filters df fi ff ts ps) \<subseteq> set df"
  by (auto simp: apply_filters_def Let_def)

lemma apply_filters_ex_all: "apply_filters ex_df (2018, 1, 1) (2021, 12, 31) [] [] = ex_df"
  by code_simp

lemma apply_filters_ex_none: "apply_filters ex_df (2018, 1, 1) (2021, 12, 31) [] [''A''] = []"
  by code_simp

subsection \<open>Groups and their counts\<close>

lemma filter_all: "(\<And>x. x \<in> set xs \<Longrightarrow> P x) \<Longrightarrow> filter P xs = xs"
  by (induction xs) auto

lemma count_list_map_filter:
  "count_list (List.map_filter key df) k = length (filter (\<lambda>r. key r = Some k) df)"
  by (induction df) (auto simp: List.map_filter_simps split: option.splits)

lemma length_map_filter:
  "length (List.map_filter key df) = length (filter (\<lambda>r. key r \<noteq> None) df)"
  by (induction df) (auto simp: List.map_filter_simps split: option.splits)

lemma distinct_group_keys: "distinct (group_keys key df)"
  by (simp add: group_keys_def)

lemma set_group_keys: "set (group_keys key df) = set (List.map_filter key df)"
  by (simp add: group_keys_def)

lemma sum_group_sizes:
  "sum_list (map (\<lambda>k. length (get_group key df k)) (group_keys key df)) =
   length (filter (\<lambda>r. key r \<noteq> None) df)"
proof -
  have "sum_list (map (\<lambda>k. length (get_group key df k)) (group_keys key df)) =
        sum (\<lambda>k. length (get_group key df k)) (set (group_keys key df))"
    by (rule sum_list_distinct_conv_sum_set [OF distinct_group_keys])
  also have "\<dots> = sum (count_list (List.map_filter key df)) (set (List.map_filter key df))"
    by (simp add: set_group_keys count_list_map_filter get_group_def)
  also have "\<dots> = length (List.map_filter key df)"
    by (rule sum_count_set) simp_all
  finally show ?thesis by (simp only: length_map_filter)
qed

lemma filter_get_group:
  assumes "\<And>r. r \<in> set df \<Longrightarrow> key r \<noteq> None \<Longrightarrow> P r"
  shows "filter P (get_group key df k) = get_group key df k"
  unfolding get_group_def using assms by (induction df) auto

lemma set_get_group: "set (get_group key df k) \<subseteq> set df"
  by (auto simp: get_group_def)

lemma registros_agg_group:
  "registros (agg_group k g) = length (filter (\<lambda>r. Toma_de_contacto r \<noteq> None) g)"
  "ventas (agg_group k g) = length (filter Convertido g)"
  "grupo (agg_group k g) = k"
  "Tasa_Conversion (agg_group k g) =
     series_mul (series_div (length (filter Convertido g))
       (length (filter (\<lambda>r. Toma_de_contacto r \<noteq> None) g))) 100"
  by (simp_all add: agg_group_def Let_def)

lemma groupby_categorical_rows:
  assumes "a \<in> set (groupby_categorical key cats df)"
  shows "\<exists>k. a = agg_group k (get_group key df k)"
  using assms by (auto simp: groupby_categorical_def)

lemma sum_list_mset_cong:
  fixes f :: "'a \<Rightarrow> nat"
  assumes "mset xs = mset ys"
  shows "sum_list (map f xs) = sum_list (map f ys)"
proof -
  have "sum_list (map f xs) = sum_mset (image_mset f (mset xs))"
    by (simp flip: sum_mset_sum_list)
  also have "\<dots> = sum_mset (image_mset f (mset ys))"
    by (simp only: assms)
  also have "\<dots> = sum_list (map f ys)"
    by (simp flip: sum_mset_sum_list)
  finally show ?thesis .
qed

lemma length_filter_mset:
  assumes "mset xs = mset ys"
  shows "length (filter P xs) = length (filter P ys)"
proof -
  have "mset (filter P xs) = mset (filter P ys)"
    by (simp only: mset_filter assms)
  then show ?thesis by (rule mset_eq_length)
qed

lemma agg_group_mset:
  assumes "mset g = mset g'"
  shows "agg_group k g = agg_group k g'"
  by (simp add: agg_group_def length_filter_mset [OF assms] del: not_None_eq)

lemma get_group_mset:
  assumes "mset df = mset df'"
  shows "mset (get_group key df k) = mset (get_group key df' k)"
  by (simp only: get_group_def mset_filter assms)

lemma sum_registros_contacto:
  "sum_list (map registros (contacto_data df)) =
   length (filter (\<lambda>r. Toma_de_contacto r \<noteq> None) df)"
proof -
  have "map registros (contacto_data df) =
        map (\<lambda>k. length (get_group Toma_de_contacto df k)) (group_keys Toma_de_contacto df)"
    by (simp add: contacto_data_def groupby_agg_def registros_agg_group filter_get_group
          del: not_None_eq)
  then show ?thesis by (simp only: sum_group_sizes)
qed

lemma sum_producto_data:
  "sum_list (map snd (producto_data df)) =
   length (filter (\<lambda>r. Producto r \<noteq> None) (filter Convertido df))"
proof -
  have "map snd (producto_data df) =
        map (\<lambda>k. length (get_group Producto (filter Convertido df) k))
          (group_keys Producto (filter Convertido df))"
    by (simp add: producto_data_def Let_def filter_get_group comp_def del: not_None_eq)
  then show ?thesis by (simp only: sum_group_sizes)
qed

lemma contacto_data_ex_df: "contacto_data ex_df = [ex_tel, ex_web]"
  by code_simp

lemma producto_data_ex_df: "producto_data ex_df = [(''A'', 1), (''B'', 1)]"
  by code_simp

subsection \<open>Conversion rates of empty groups\<close>

lemma agg_group_rate:
  assumes "\<forall>r\<in>set g. Toma_de_contacto r \<noteq> None"
  shows "Tasa_Conversion (agg_group k g) =
           (if registros (agg_group k g) = 0 then NaN
            else Num (of_nat (ventas (agg_group k g)) / of_nat (registros (agg_group k g)) * 100))"
proof -
  have "filter (\<lambda>r. Toma_de_contacto r \<noteq> None) g = g"
    using assms by (induction g) simp_all
  then have n: "registros (agg_group k g) = length g"
    by (simp add: registros_agg_group del: not_None_eq)
  show ?thesis
  proof (cases "g = []")
    case True
    then show ?thesis
      by (simp add: registros_agg_group series_div_def series_mul_def)
  next
    case False
    with n have "registros (agg_group k g) \<noteq> 0" by simp
    then show ?thesis
      by (simp add: registros_agg_group series_div_def series_mul_def del: not_None_eq)
  qed
qed

lemma agg_group_of_view_rate:
  assumes "\<forall>r\<in>set df. Toma_de_contacto r \<noteq> None"
    and "a = agg_group k (get_group key df k)"
  shows "Tasa_Conversion a =
           (if registros a = 0 then NaN else Num (of_nat (ventas a) / of_nat (registros a) * 100))"
proof -
  have "\<forall>r\<in>set (get_group key df k). Toma_de_contacto r \<noteq> None"
    using assms(1) by (simp add: get_group_def del: not_None_eq)
  then show ?thesis unfolding assms(2) by (rule agg_group_rate)
qed

lemma groupby_agg_rate:
  assumes "\<forall>r\<in>set df. Toma_de_contacto r \<noteq> None"
    and "a \<in> set (groupby_agg key df)"
  shows "Tasa_Conversion a =
           (if registros a = 0 then NaN else Num (of_nat (ventas a) / of_nat (registros a) * 100))"
proof -
  from assms(2) obtain k where "a = agg_group k (get_group key df k)"
    by (auto simp: groupby_agg_def)
  with assms(1) show ?thesis by (rule agg_group_of_view_rate)
qed

lemma groupby_categorical_rate:
  assumes "\<forall>r\<in>set df. Toma_de_contacto r \<noteq> None"
    and "a \<in> set (groupby_categorical key cats df)"
  shows "Tasa_Conversion a =
           (if registros a = 0 then NaN else Num (of_nat (ventas a) / of_nat (registros a) * 100))"
proof -
  from assms(2) obtain k where "a = agg_group k (get_group key df k)"
    by (auto simp: groupby_categorical_def)
  with assms(1) show ?thesis by (rule agg_group_of_view_rate)
qed

text \<open>
  Claim C3, as the code has it. In every grouped summary with a rate column (by month, by
  year, by contact channel, by weekday, by day) the rate of a row is not-a-number when its
  record count is 0, and converted count over record count times 100 otherwise; nothing is
  raised, the division is total. The headline rate is different: the source guards it with
  \<open>if total_registros > 0 else 0\<close>, so a view with no rows shows the number 0, not an
  undefined rate.
\<close>

theorem zero_count_rate:
  assumes "load_data csv = Some df"
    and "df_filtered = apply_filters df fecha_inicio fecha_fin toma_seleccionada producto_seleccionado"
  shows "(\<forall>a\<in>set (monthly_data df_filtered). Tasa_Conversion a =
            (if registros a = 0 then NaN else Num (of_nat (ventas a) / of_nat (registros a) * 100)))
       \<and> (\<forall>a\<in>set (yearly_data df_filtered). Tasa_Conversion a =
            (if registros a = 0 then NaN else Num (of_nat (ventas a) / of_nat (registros a) * 100)))
       \<and> (\<forall>a\<in>set (contacto_data df_filtered). Tasa_Conversion a =
            (if registros a = 0 then NaN else Num (of_nat (ventas a) / of_nat (registros a) * 100)))
       \<and> (\<forall>a\<in>set (dia_semana_data df_filtered). Tasa_Conversion a =
            (if registros a = 0 then NaN else Num (of_nat (ventas a) / of_nat (registros a) * 100)))
       \<and> (\<forall>a\<in>set (daily_data df_filtered). Tasa_Conversion a =
            (if registros a = 0 then NaN else Num (of_nat (ventas a) / of_nat (registros a) * 100)))
       \<and> tasa_conversion df_filtered =
            (if total_registros df_filtered = 0 then Num 0
             else Num (of_nat (total_ventas df_filtered) / of_nat (total_registros df_filtered) * 100))"
proof -
  have sub: "set df_filtered \<subseteq> set df"
    unfolding assms(2) by (rule set_apply_filters)
  have t: "\<forall>r\<in>set df_filtered. Toma_de_contacto r \<noteq> None"
    using sub load_data_Toma [OF assms(1)] by blast
  have m: "\<forall>a\<in>set (monthly_data df_filtered). Tasa_Conversion a =
            (if registros a = 0 then NaN else Num (of_nat (ventas a) / of_nat (registros a) * 100))"
    unfolding monthly_data_def by (intro ballI) (rule groupby_agg_rate [OF t])
  have y: "\<forall>a\<in>set (yearly_data df_filtered). Tasa_Conversion a =
            (if registros a = 0 then NaN else Num (of_nat (ventas a) / of_nat (registros a) * 100))"
    unfolding yearly_data_def by (intro ballI) (rule groupby_agg_rate [OF t])
  have c: "\<forall>a\<in>set (contacto_data df_filtered). Tasa_Conversion a =
            (if registros a = 0 then NaN else Num (of_nat (ventas a) / of_nat (registros a) * 100))"
    unfolding contacto_data_def by (intro ballI) (rule groupby_agg_rate [OF t])
  have w: "\<forall>a\<in>set (dia_semana_data df_filtered). Tasa_Conversion a =
            (if registros a = 0 then NaN else Num (of_nat (ventas a) / of_nat (registros a) * 100))"
    unfolding dia_semana_data_def by (intro ballI) (rule groupby_categorical_rate [OF t])
  have d: "\<forall>a\<in>set (daily_data df_filtered). Tasa_Conversion a =
            (if registros a = 0 then NaN else Num (of_nat (ventas a) / of_nat (registros a) * 100))"
    unfolding daily_data_def by (intro ballI) (rule groupby_agg_rate [OF t])
  have h: "tasa_conversion df_filtered =
            (if total_registros df_filtered = 0 then Num 0
             else Num (of_nat (total_ventas df_filtered) / of_nat (total_registros df_filtered) * 100))"
    by (simp add: tasa_conversion_def)
  show ?thesis
    by (intro conjI) (rule m, rule y, rule c, rule w, rule d, rule h)
qed

theorem zero_count_rate_witness:
  "load_data ex_csv = Some ex_df
   \<and> [] = apply_filters ex_df (2018, 1, 1) (2021, 12, 31) [] [''A'']
   \<and> ex_monday \<in> set (dia_semana_data []) \<and> registros ex_monday = 0
   \<and> Tasa_Conversion ex_monday = NaN
   \<and> total_registros [] = 0 \<and> tasa_conversion [] = Num 0"
proof -
  have l: "load_data ex_csv = Some ex_df" by (rule load_data_ex_csv)
  have v: "[] = apply_filters ex_df (2018, 1, 1) (2021, 12, 31) [] [''A'']"
    by (simp only: apply_filters_ex_none)
  have m: "ex_monday \<in> set (dia_semana_data [])"
    by (simp add: dia_semana_data_def groupby_categorical_def get_group_def agg_group_def
        series_div_def series_mul_def orden_dias_def ex_monday_def)
  have r: "registros ex_monday = 0" by (simp add: ex_monday_def)
  have t: "total_registros [] = 0" by (simp add: total_registros_def)
  from zero_count_rate [OF l v] have
    w: "\<forall>a\<in>set (dia_semana_data []). Tasa_Conversion a =
          (if registros a = 0 then NaN else Num (of_nat (ventas a) / of_nat (registros a) * 100))"
    and h: "tasa_conversion [] =
          (if total_registros [] = 0 then Num 0
           else Num (of_nat (total_ventas []) / of_nat (total_registros []) * 100))"
    by blast+
  from w m r have "Tasa_Conversion ex_monday = NaN" by auto
  moreover from h t have "tasa_conversion [] = Num 0" by simp
  ultimately show ?thesis using l v m r t by simp
qed

theorem zero_count_rate_counterexample:
  "total_registros (apply_filters ex_df (2018, 1, 1) (2021, 12, 31) [] [''A'']) = 0
   \<and> tasa_conversion (apply_filters ex_df (2018, 1, 1) (2021, 12, 31) [] [''A'']) = Num 0"
  by (simp add: apply_filters_ex_none total_registros_def tasa_conversion_def)

subsection \<open>Counts add up\<close>

text \<open>
  Claim C8. For every filtered view of a cleaned table, the record counts of the rows of
  the contact-channel summary add up to the number of rows of the view, and the counts of
  the rows of the product summary add up to the number of converted rows of the view.
\<close>

theorem group_counts_partition_view:
  assumes "load_data csv = Some df"
    and "df_filtered = apply_filters df fecha_inicio fecha_fin toma_seleccionada producto_seleccionado"
    and "sort_values_desc ventas (contacto_data df_filtered) contacto_sorted"
    and "sort_values_desc snd (producto_data df_filtered) producto_sorted"
  shows "sum_list (map registros contacto_sorted) = total_registros df_filtered
       \<and> sum_list (map snd producto_sorted) = total_ventas df_filtered"
proof -
  have sub: "set df_filtered \<subseteq> set df"
    unfolding assms(2) by (rule set_apply_filters)
  have t: "filter (\<lambda>r. Toma_de_contacto r \<noteq> None) df_filtered = df_filtered"
    by (rule filter_all) (use sub load_data_Toma [OF assms(1)] in blast)
  have p: "filter (\<lambda>r. Producto r \<noteq> None) (filter Convertido df_filtered) =
           filter Convertido df_filtered"
    by (rule filter_all) (use sub load_data_Convertido [OF assms(1)] in auto)
  from assms(3) have "sum_list (map registros contacto_sorted) =
      sum_list (map registros (contacto_data df_filtered))"
    unfolding sort_values_desc_def by (blast intro: sum_list_mset_cong)
  moreover from assms(4) have "sum_list (map snd producto_sorted) =
      sum_list (map snd (producto_data df_filtered))"
    unfolding sort_values_desc_def by (blast intro: sum_list_mset_cong)
  ultimately show ?thesis
    by (simp add: sum_registros_contacto sum_producto_data t p total_registros_def total_ventas_def
          del: not_None_eq filter_filter)
qed

theorem group_counts_partition_view_witness:
  "load_data ex_csv = Some ex_df
   \<and> ex_df = apply_filters ex_df (2018, 1, 1) (2021, 12, 31) [] []
   \<and> sort_values_desc ventas (contacto_data ex_df) [ex_tel, ex_web]
   \<and> sort_values_desc snd (producto_data ex_df) [(''A'', 1), (''B'', 1)]
   \<and> sum_list (map registros [ex_tel, ex_web]) = total_registros ex_df
   \<and> sum_list (map snd [(''A'', 1::nat), (''B'', 1)]) = total_ventas ex_df
   \<and> total_registros ex_df = 3 \<and> total_ventas ex_df = 2"
proof -
  have l: "load_data ex_csv = Some ex_df" by (rule load_data_ex_csv)
  have v: "ex_df = apply_filters ex_df (2018, 1, 1) (2021, 12, 31) [] []"
    by (simp only: apply_filters_ex_all)
  have a: "sort_values_desc ventas (contacto_data ex_df) [ex_tel, ex_web]"
    by (simp add: contacto_data_ex_df sort_values_desc_def ex_tel_def ex_web_def)
  have b: "sort_values_desc snd (producto_data ex_df) [(''A'', 1), (''B'', 1)]"
    by (simp add: producto_data_ex_df sort_values_desc_def)
  have n: "sum_list (map registros [ex_tel, ex_web]) = 3
           \<and> sum_list (map snd [(''A'', 1::nat), (''B'', 1)]) = 2"
    by (simp add: ex_tel_def ex_web_def)
  from group_counts_partition_view [OF l v a b] l v a b n show ?thesis by simp
qed

subsection \<open>The summary by weekday\<close>

lemma grupo_dia_semana_data: "map grupo (dia_semana_data df) = orden_dias"
  by (simp add: dia_semana_data_def groupby_categorical_def registros_agg_group comp_def)

lemma Dia_Semana_Some:
  "Dia_Semana r = Some d \<longleftrightarrow>
     map_option day_name (Fecha_de_Creacion r) = Some d \<and> d \<in> set orden_dias"
  by (auto simp: Dia_Semana_def Categorical_def split: option.splits)

text \<open>
  Claim C7. The rows of the summary by weekday stand in the order Monday, Tuesday,
  Wednesday, Thursday, Friday, Saturday, Sunday, whatever the order of the rows of the view:
  two views with the same rows in another order give the same summary.
\<close>

theorem weekday_rows_in_fixed_order:
  "map grupo (dia_semana_data df_filtered) =
     [''Monday'', ''Tuesday'', ''Wednesday'', ''Thursday'', ''Friday'', ''Saturday'', ''Sunday'']
   \<and> (mset df' = mset df_filtered \<longrightarrow> dia_semana_data df' = dia_semana_data df_filtered)"
proof -
  have a: "map grupo (dia_semana_data df_filtered) =
     [''Monday'', ''Tuesday'', ''Wednesday'', ''Thursday'', ''Friday'', ''Saturday'', ''Sunday'']"
    by (simp only: grupo_dia_semana_data orden_dias_def)
  have b: "dia_semana_data df' = dia_semana_data df_filtered" if "mset df' = mset df_filtered"
  proof -
    have "agg_group k (get_group Dia_Semana df' k) = agg_group k (get_group Dia_Semana df_filtered k)"
      for k :: string
      by (rule agg_group_mset [OF get_group_mset [OF that]])
    then show ?thesis
      by (simp only: dia_semana_data_def groupby_categorical_def)
  qed
  from a b show ?thesis by blast
qed

theorem weekday_rows_in_fixed_order_witness:
  "mset (rev ex_df) = mset ex_df
   \<and> dia_semana_data (rev ex_df) = dia_semana_data ex_df
   \<and> map grupo (dia_semana_data (rev ex_df)) =
       [''Monday'', ''Tuesday'', ''Wednesday'', ''Thursday'', ''Friday'', ''Saturday'', ''Sunday'']"
proof -
  have m: "mset (rev ex_df) = mset ex_df" by simp
  from weekday_rows_in_fixed_order [of "rev ex_df" "rev ex_df"]
       weekday_rows_in_fixed_order [of ex_df "rev ex_df"] m
  show ?thesis by simp
qed

text \<open>
  Claim C10. The summary by weekday has exactly seven rows, one for each weekday from
  Monday to Sunday, for every view and for the empty one too. A weekday on which no row of
  the view was created has record count 0, converted count 0 and the rate not-a-number.
  Nothing is raised: every function involved is total.
\<close>

theorem weekday_table_has_seven_rows:
  "length (dia_semana_data df_filtered) = 7
   \<and> map grupo (dia_semana_data df_filtered) = orden_dias
   \<and> (\<forall>a\<in>set (dia_semana_data df_filtered).
        (\<forall>r\<in>set df_filtered. map_option day_name (Fecha_de_Creacion r) \<noteq> Some (grupo a))
        \<longrightarrow> registros a = 0 \<and> ventas a = 0 \<and> Tasa_Conversion a = NaN)
   \<and> dia_semana_data [] =
       map (\<lambda>d. \<lparr>grupo = d, registros = 0, ventas = 0, Tasa_Conversion = NaN\<rparr>) orden_dias"
proof -
  have l: "length (dia_semana_data df_filtered) = 7"
    by (simp add: dia_semana_data_def groupby_categorical_def orden_dias_def)
  have z: "registros a = 0 \<and> ventas a = 0 \<and> Tasa_Conversion a = NaN"
    if a: "a \<in> set (dia_semana_data df_filtered)"
      and n: "\<forall>r\<in>set df_filtered. map_option day_name (Fecha_de_Creacion r) \<noteq> Some (grupo a)"
    for a
  proof -
    from a obtain k where k: "a = agg_group k (get_group Dia_Semana df_filtered k)"
      unfolding dia_semana_data_def using groupby_categorical_rows by blast
    then have "grupo a = k" by (simp add: registros_agg_group)
    with n have "\<forall>r\<in>set df_filtered. Dia_Semana r \<noteq> Some k"
      by (simp add: Dia_Semana_Some)
    then have "get_group Dia_Semana df_filtered k = []"
      by (simp add: get_group_def filter_empty_conv)
    with k show ?thesis
      by (simp add: registros_agg_group series_div_def series_mul_def)
  qed
  have e: "dia_semana_data [] =
       map (\<lambda>d. \<lparr>grupo = d, registros = 0, ventas = 0, Tasa_Conversion = NaN\<rparr>) orden_dias"
    by (simp add: dia_semana_data_def groupby_categorical_def get_group_def agg_group_def
        series_div_def series_mul_def)
  from l grupo_dia_semana_data z e show ?thesis by blast
qed

theorem weekday_table_has_seven_rows_witness:
  "ex_monday \<in> set (dia_semana_data ex_df)
   \<and> list_all (\<lambda>r. map_option day_name (Fecha_de_Creacion r) \<noteq> Some (grupo ex_monday)) ex_df
   \<and> registros ex_monday = 0 \<and> ventas ex_monday = 0 \<and> Tasa_Conversion ex_monday = NaN
   \<and> length (dia_semana_data ex_df) = 7"
proof -
  have d: "dia_semana_data ex_df ! 0 = ex_monday" by code_simp
  have l: "length (dia_semana_data ex_df) = 7"
    using weekday_table_has_seven_rows [of ex_df] by simp
  have m: "ex_monday \<in> set (dia_semana_data ex_df)"
    using d l by (metis nth_mem zero_less_numeral)
  have n: "list_all (\<lambda>r. map_option day_name (Fecha_de_Creacion r) \<noteq> Some (grupo ex_monday)) ex_df"
    by code_simp
  then have n': "\<forall>r\<in>set ex_df. map_option day_name (Fecha_de_Creacion r) \<noteq> Some (grupo ex_monday)"
    by (simp only: list_all_iff)
  from weekday_table_has_seven_rows [of ex_df] m n' l have
    "registros ex_monday = 0 \<and> ventas ex_monday = 0 \<and> Tasa_Conversion ex_monday = NaN"
    by blast
  with m n l show ?thesis by simp
qed

end
